theory Spec2Isabelle
  imports Main
begin

section \<open>smallsh: a shallow embedding of main.c\<close>

text \<open>
  The shell is one C file. Its functions are embedded one by one, under their own names.
  C strings are character lists (the terminating NUL is implicit), \<open>int\<close> and \<open>pid_t\<close>
  values are integers, and every place where the C code would run into undefined
  behaviour (a null pointer passed to \<open>strlen\<close>, a write behind an allocated block) is a
  value of type \<open>fault\<close>.
\<close>

datatype fault = NullDereference | BufferOverflow

subsection \<open>Variable expansion\<close>

text \<open>\<open>sprintf(pid, "%d", getpid())\<close>: the decimal digits of an integer.\<close>

fun digits10 :: "nat \<Rightarrow> string" where
  "digits10 n = (if n < 10 then [char_of (48 + n)]
                 else digits10 (n div 10) @ [char_of (48 + n mod 10)])"

declare digits10.simps [simp del]

definition sprintf_d :: "int \<Rightarrow> string" where
  "sprintf_d i = (if i < 0 then CHR ''-'' # digits10 (nat (- i)) else digits10 (nat i))"

text \<open>
  \<open>strstr haystack needle\<close> is the offset of the first occurrence of the needle, where the
  C function returns a pointer to it, and \<open>None\<close> where it returns NULL.
\<close>

fun strstr :: "string \<Rightarrow> string \<Rightarrow> nat option" where
  "strstr [] needle = (if needle = [] then Some 0 else None)"
| "strstr (c # cs) needle =
     (if take (length needle) (c # cs) = needle then Some 0
      else map_option Suc (strstr cs needle))"

text \<open>Subtraction of two \<open>size_t\<close> values wraps around.\<close>

definition size_t_sub :: "nat \<Rightarrow> nat \<Rightarrow> nat" where
  "size_t_sub a b = (if b \<le> a then a - b else a + 2 ^ 64 - b)"

text \<open>
  \<open>strncat\<close> and \<open>strcat\<close> into a block of \<open>cap\<close> bytes: the result and its NUL must fit.
\<close>

definition strncat :: "nat \<Rightarrow> string \<Rightarrow> string \<Rightarrow> nat \<Rightarrow> fault + string" where
  "strncat cap dest src n =
     (let r = dest @ take n src in if cap < length r + 1 then Inl BufferOverflow else Inr r)"

definition strcat :: "nat \<Rightarrow> string \<Rightarrow> string \<Rightarrow> fault + string" where
  "strcat cap dest src =
     (let r = dest @ src in if cap < length r + 1 then Inl BufferOverflow else Inr r)"

lemma strstr_Some_nonempty: "strstr s ''$$'' = Some k \<Longrightarrow> s \<noteq> []"
  by (cases s) auto

text \<open>
  The \<open>while (return_string != NULL)\<close> loop of \<open>variable_expansion\<close> and the final
  \<open>strncat\<close>. \<open>k\<close> is \<open>strlen(str_pointer) - strlen(return_string)\<close>, the offset of the
  match; the buffer \<open>command_line_expanded\<close> has 2048 bytes.
\<close>

function expansion_loop :: "string \<Rightarrow> string \<Rightarrow> string \<Rightarrow> fault + string" where
  "expansion_loop pid command_line_expanded str_pointer =
     (case strstr str_pointer ''$$'' of
        None \<Rightarrow>
          strncat 2048 command_line_expanded str_pointer (size_t_sub (length str_pointer) 1)
      | Some k \<Rightarrow>
          (case strncat 2048 command_line_expanded str_pointer k of
             Inl f \<Rightarrow> Inl f
           | Inr e1 \<Rightarrow>
               (case strcat 2048 e1 pid of
                  Inl f \<Rightarrow> Inl f
                | Inr e2 \<Rightarrow> expansion_loop pid e2 (drop (k + length ''$$'') str_pointer))))"
  by pat_completeness auto
termination
  by (relation "measure (\<lambda>(pid, e, s). length s)") (auto dest: strstr_Some_nonempty)

declare expansion_loop.simps [simp del]

definition variable_expansion :: "int \<Rightarrow> string \<Rightarrow> fault + string" where
  "variable_expansion getpid command_line_str =
     expansion_loop (sprintf_d getpid) [] command_line_str"

text \<open>
  The specification's reading of the expansion: every \<open>$$\<close> is replaced, from left to
  right and without overlap, and every other character is kept.
\<close>

fun replace_all_dd :: "string \<Rightarrow> string \<Rightarrow> string" where
  "replace_all_dd pid (a # b # cs) =
     (if a = CHR ''$'' \<and> b = CHR ''$'' then pid @ replace_all_dd pid cs
      else a # replace_all_dd pid (b # cs))"
| "replace_all_dd pid [a] = [a]"
| "replace_all_dd pid [] = []"

subsection \<open>Parsing\<close>

record command_line =
  command :: string
  args :: "string option list"
  args_count :: nat
  input_file :: "string option"
  output_file :: "string option"
  run_in_background :: bool

text \<open>
  The tokens that successive calls \<open>strtok_r(..., " ", &saveptr1)\<close> return: the maximal
  runs of characters other than the blank. \<open>cur\<close> is the token being read.
\<close>

fun tokens :: "string \<Rightarrow> string \<Rightarrow> string list" where
  "tokens cur [] = (if cur = [] then [] else [cur])"
| "tokens cur (c # cs) =
     (if c = CHR '' '' then (if cur = [] then tokens [] cs else cur # tokens [] cs)
      else tokens (cur @ [c]) cs)"

definition strtok_r_all :: "string \<Rightarrow> string list" where
  "strtok_r_all s = tokens [] s"

definition initialize_struct :: command_line where
  "initialize_struct =
     \<lparr>command = [], args = [], args_count = 0, input_file = None, output_file = None,
      run_in_background = False\<rparr>"

text \<open>
  The \<open>while (token)\<close> loop of \<open>parse_command_line\<close>, over the tokens that are left. After
  \<open><\<close> or \<open>>\<close> the next token is fetched and passed to \<open>strlen\<close> unchecked; \<open>args_list\<close>
  has 512 slots.
\<close>

fun parse_loop :: "string list \<Rightarrow> command_line \<Rightarrow> fault + command_line" where
  "parse_loop [] c = Inr c"
| "parse_loop (token # rest) c =
     (if token = ''<'' then
        (case rest of
           [] \<Rightarrow> Inl NullDereference
         | path # rest' \<Rightarrow> parse_loop rest' (c\<lparr>input_file := Some path\<rparr>))
      else if token = ''>'' then
        (case rest of
           [] \<Rightarrow> Inl NullDereference
         | path # rest' \<Rightarrow> parse_loop rest' (c\<lparr>output_file := Some path\<rparr>))
      else if 512 \<le> args_count c then Inl BufferOverflow
      else parse_loop rest (c\<lparr>args := args c @ [Some token], args_count := args_count c + 1\<rparr>))"

definition parse_command_line :: "string \<Rightarrow> fault + command_line" where
  "parse_command_line command_line_str =
     (case strtok_r_all command_line_str of
        [] \<Rightarrow> Inl NullDereference
      | token # rest \<Rightarrow>
          (case parse_loop rest
                  (initialize_struct\<lparr>command := token, args := [Some token], args_count := 1\<rparr>) of
             Inl f \<Rightarrow> Inl f
           | Inr c \<Rightarrow>
               if 1 < args_count c \<and> args c ! (args_count c - 1) = Some ''&''
               then Inr (c\<lparr>run_in_background := True, args := butlast (args c),
                           args_count := args_count c - 1\<rparr>)
               else Inr c))"

subsection \<open>The shell's state and the operating system\<close>

text \<open>
  What \<open>waitpid\<close> stores in \<open>child_status\<close>, as the macros \<open>WIFEXITED\<close>, \<open>WEXITSTATUS\<close>
  and \<open>WTERMSIG\<close> read it.
\<close>

datatype wait_status = Exited int | Signaled int

fun WIFEXITED :: "wait_status \<Rightarrow> bool" where
  "WIFEXITED (Exited c) = True"
| "WIFEXITED (Signaled s) = False"

fun WEXITSTATUS :: "wait_status \<Rightarrow> int" where
  "WEXITSTATUS (Exited c) = c"
| "WEXITSTATUS (Signaled s) = 0"

fun WTERMSIG :: "wait_status \<Rightarrow> int" where
  "WTERMSIG (Exited c) = 0"
| "WTERMSIG (Signaled s) = s"

datatype child_state = Running | Zombie wait_status

type_synonym process_table = "(int \<times> child_state) list"

datatype child_fate = Terminates wait_status | RunsForever

text \<open>
  The variables of \<open>main\<close> that the functions share through pointers, the global
  \<open>foreground_only\<close>, what the shell has written to its standard output, and the kernel's
  table of the shell's children. \<open>background_procs\<close> is the whole allocated block.
\<close>

record shell_state =
  status :: int
  background_procs :: "int list"
  bg_proc_count :: int
  foreground_only :: bool
  terminal :: string
  children :: process_table
  cwd :: string

text \<open>The system calls whose results the code branches on.\<close>

record os =
  getpid :: int
  getenv_HOME :: "string option"
  chdir :: "string \<Rightarrow> string option \<Rightarrow> string option"
  open_rdonly :: "string \<Rightarrow> bool"
  open_wronly :: "string \<Rightarrow> bool"
  dup2_ok :: "string \<Rightarrow> nat \<Rightarrow> bool"
  execvp_ok :: "string option list \<Rightarrow> bool"
  image_fate :: "string option list \<Rightarrow> child_fate"

definition printf :: "string \<Rightarrow> shell_state \<Rightarrow> shell_state" where
  "printf s st = st\<lparr>terminal := terminal st @ s\<rparr>"

definition init_state :: "string \<Rightarrow> shell_state" where
  "init_state dir =
     \<lparr>status = 0, background_procs = replicate 100 0, bg_proc_count = 0,
      foreground_only = False, terminal = [], children = [], cwd = dir\<rparr>"

subsection \<open>Signals\<close>

datatype disposition = SIG_IGN | SIG_DFL | Handler

text \<open>
  \<open>handle_SIGTSTP\<close> writes 32 bytes of the first message, which is all of it, and 53
  bytes of the second, which is the message and its terminating NUL.
\<close>

definition handle_SIGTSTP :: "shell_state \<Rightarrow> shell_state" where
  "handle_SIGTSTP st =
     (if foreground_only st
      then (printf ''\<newline>Exiting foreground-only mode\<newline>: '' st)\<lparr>foreground_only := False\<rparr>
      else (printf (''\<newline>Entering foreground-only mode (& is now ignored)\<newline>: '' @ [CHR 0x00]) st)
             \<lparr>foreground_only := True\<rparr>)"

text \<open>A SIGTSTP that arrives, or not, before the next statement.\<close>

definition deliver :: "bool \<Rightarrow> shell_state \<Rightarrow> shell_state" where
  "deliver arrives st = (if arrives then handle_SIGTSTP st else st)"

subsection \<open>Built-in commands\<close>

definition display_status :: "shell_state \<Rightarrow> shell_state" where
  "display_status st =
     (if status st = 0 \<or> status st = 1
      then printf (''exit value '' @ sprintf_d (status st) @ ''\<newline>'') st
      else printf (''terminated by signal '' @ sprintf_d (status st) @ ''\<newline>'') st)"

definition change_dir :: "os \<Rightarrow> string option \<Rightarrow> shell_state \<Rightarrow> shell_state" where
  "change_dir env envpath st =
     (case chdir env (cwd st) envpath of
        None \<Rightarrow> printf ''Error changing directories.\<newline>'' st
      | Some dir \<Rightarrow> st\<lparr>cwd := dir\<rparr>)"

subsection \<open>The child process\<close>

text \<open>
  What the forked child has set up by the time it exits or replaces its image: its copy
  of \<open>foreground_only\<close>, its dispositions for SIGINT and SIGTSTP, where its standard
  input and output point (\<open>None\<close>: inherited from the shell) and what it has printed.
\<close>

record child_proc =
  c_foreground_only :: bool
  c_sigint :: disposition
  c_sigtstp :: disposition
  c_stdin :: "string option"
  c_stdout :: "string option"
  c_printed :: string

datatype child_end =
    ExitedBeforeImage int child_proc
  | ImageReplaced "string option list" child_proc

text \<open>
  The child starts as a copy of the shell, which ignores SIGINT and handles SIGTSTP.
\<close>

definition child_of :: "shell_state \<Rightarrow> child_proc" where
  "child_of st =
     \<lparr>c_foreground_only = foreground_only st, c_sigint = SIG_IGN, c_sigtstp = Handler,
      c_stdin = None, c_stdout = None, c_printed = []\<rparr>"

definition c_printf :: "string \<Rightarrow> child_proc \<Rightarrow> child_proc" where
  "c_printf s ch = ch\<lparr>c_printed := c_printed ch @ s\<rparr>"

text \<open>\<open>handle_SIGTSTP\<close> running in the child, while the child has not yet ignored SIGTSTP.\<close>

definition c_deliver :: "bool \<Rightarrow> child_proc \<Rightarrow> child_proc" where
  "c_deliver arrives ch =
     (if arrives \<and> c_sigtstp ch = Handler then
        (if c_foreground_only ch
         then (c_printf ''\<newline>Exiting foreground-only mode\<newline>: '' ch)\<lparr>c_foreground_only := False\<rparr>
         else (c_printf (''\<newline>Entering foreground-only mode (& is now ignored)\<newline>: ''
                          @ [CHR 0x00]) ch)
                \<lparr>c_foreground_only := True\<rparr>)
      else ch)"

definition restore_SIGINT :: "child_proc \<Rightarrow> child_proc" where
  "restore_SIGINT ch = ch\<lparr>c_sigint := SIG_DFL\<rparr>"

definition ignore_SIGTSTP :: "child_proc \<Rightarrow> child_proc" where
  "ignore_SIGTSTP ch = ch\<lparr>c_sigtstp := SIG_IGN\<rparr>"

text \<open>
  The redirections run in the child; \<open>Inl (code, ch)\<close> is \<open>exit(code)\<close>.
\<close>

definition input_redirect ::
  "os \<Rightarrow> command_line \<Rightarrow> child_proc \<Rightarrow> (int \<times> child_proc) + child_proc" where
  "input_redirect env cl ch =
     (case (case input_file cl of
              None \<Rightarrow> Inr ch
            | Some path \<Rightarrow>
                if \<not> open_rdonly env path
                then Inl (1, c_printf (''cannot open '' @ path @ '' for input\<newline>'') ch)
                else if \<not> dup2_ok env path 0
                then Inl (1, c_printf ''error redirecting stdin to input file\<newline>'' ch)
                else Inr (ch\<lparr>c_stdin := Some path\<rparr>)) of
        Inl e \<Rightarrow> Inl e
      | Inr ch1 \<Rightarrow>
          if run_in_background cl \<and> \<not> c_foreground_only ch1 \<and> input_file cl = None then
            (if \<not> open_rdonly env ''/dev/null''
             then Inl (1, c_printf ''cannot open /dev/null for input\<newline>'' ch1)
             else if \<not> dup2_ok env ''/dev/null'' 0
             then Inl (1, c_printf ''error redirecting stdin to /dev/null\<newline>'' ch1)
             else Inr (ch1\<lparr>c_stdin := Some ''/dev/null''\<rparr>))
          else Inr ch1)"

definition output_redirect ::
  "os \<Rightarrow> command_line \<Rightarrow> child_proc \<Rightarrow> (int \<times> child_proc) + child_proc" where
  "output_redirect env cl ch =
     (case (case output_file cl of
              None \<Rightarrow> Inr ch
            | Some path \<Rightarrow>
                if \<not> open_wronly env path
                then Inl (1, c_printf (''cannot open '' @ path @ '' for output\<newline>'') ch)
                else if \<not> dup2_ok env path 1
                then Inl (1, c_printf ''error redirecting stdout to output file\<newline>'' ch)
                else Inr (ch\<lparr>c_stdout := Some path\<rparr>)) of
        Inl e \<Rightarrow> Inl e
      | Inr ch1 \<Rightarrow>
          if run_in_background cl \<and> \<not> c_foreground_only ch1 \<and> output_file cl = None then
            (if \<not> open_wronly env ''/dev/null''
             then Inl (1, c_printf ''cannot open /dev/null for output\<newline>'' ch1)
             else if \<not> dup2_ok env ''/dev/null'' 1
             then Inl (1, c_printf ''error redirecting stdout to /dev/null\<newline>'' ch1)
             else Inr (ch1\<lparr>c_stdout := Some ''/dev/null''\<rparr>))
          else Inr ch1)"

text \<open>
  SIGTSTP signals during one call of \<open>fork_child\<close>. To the shell: one before the test of
  \<open>foreground_only\<close> that registers the child, one before the test that chooses between
  waiting and returning. To the child: one before the test that restores SIGINT, one
  between that test and \<open>ignore_SIGTSTP()\<close>. Each flag stands for an odd number of
  signals at that point; a child that is killed by a signal before it replaces its image
  is not modelled.
\<close>

record tstp_schedule =
  before_register :: bool
  before_wait :: bool
  before_sigint :: bool
  before_ignore :: bool

text \<open>\<open>case 0\<close> of the switch in \<open>fork_child\<close>.\<close>

definition child_process ::
  "os \<Rightarrow> tstp_schedule \<Rightarrow> command_line \<Rightarrow> child_proc \<Rightarrow> child_end" where
  "child_process env sched cl ch0 =
     (let ch1 = c_deliver (before_sigint sched) ch0;
          ch2 = (if \<not> run_in_background cl \<or> \<not> c_foreground_only ch1
                 then restore_SIGINT ch1 else ch1);
          ch3 = ignore_SIGTSTP (c_deliver (before_ignore sched) ch2)
      in case input_redirect env cl ch3 of
           Inl (code, ch) \<Rightarrow> ExitedBeforeImage code ch
         | Inr ch4 \<Rightarrow>
             (case output_redirect env cl ch4 of
                Inl (code, ch) \<Rightarrow> ExitedBeforeImage code ch
              | Inr ch5 \<Rightarrow>
                  if execvp_ok env (args cl) then ImageReplaced (args cl) ch5
                  else ExitedBeforeImage 1 ch5))"

text \<open>How the child ends, as the shell's \<open>waitpid\<close> sees it.\<close>

fun fate_of :: "os \<Rightarrow> child_end \<Rightarrow> child_fate" where
  "fate_of env (ExitedBeforeImage code ch) = Terminates (Exited code)"
| "fate_of env (ImageReplaced argv ch) = image_fate env argv"

subsection \<open>Launching a command\<close>

datatype launched =
    ShellExit int shell_state
  | InChild child_end
  | Back shell_state
  | Blocked shell_state

text \<open>
  \<open>fork_child\<close> as either of the two processes runs it: \<open>spawn_pid\<close> is what \<open>fork()\<close>
  returned there. \<open>ShellExit\<close> is \<open>exit(1)\<close> after a failed fork, \<open>InChild\<close> the forked
  copy, \<open>Back\<close> the shell returning to its caller and \<open>Blocked\<close> the shell inside a
  \<open>waitpid\<close> that never returns. The store into \<open>background_procs\<close> is a fault when the
  index is outside the allocated block.
\<close>

definition fork_child ::
  "os \<Rightarrow> tstp_schedule \<Rightarrow> int \<Rightarrow> command_line \<Rightarrow> shell_state \<Rightarrow> fault + launched" where
  "fork_child env sched spawn_pid cl st0 =
     (let st1 = deliver (before_register sched \<and> spawn_pid \<noteq> 0) st0 in
      case (if run_in_background cl \<and> \<not> foreground_only st1 then
              (if 0 \<le> bg_proc_count st1 \<and> bg_proc_count st1 < int (length (background_procs st1))
               then Inr (st1\<lparr>background_procs :=
                                (background_procs st1)[nat (bg_proc_count st1) := spawn_pid],
                              bg_proc_count := bg_proc_count st1 + 1\<rparr>)
               else Inl BufferOverflow)
            else Inr st1) of
        Inl f \<Rightarrow> Inl f
      | Inr st2 \<Rightarrow>
          if spawn_pid = - 1 then Inr (ShellExit 1 st2)
          else if spawn_pid = 0 then Inr (InChild (child_process env sched cl (child_of st0)))
          else
            (let st3 = deliver (before_wait sched)
                         (st2\<lparr>children := children st2 @ [(spawn_pid, Running)]\<rparr>)
             in if run_in_background cl \<and> \<not> foreground_only st3
                then Inr (Back (printf (''background PID is '' @ sprintf_d spawn_pid @ ''\<newline>'') st3))
                else
                  (case fate_of env (child_process env sched cl (child_of st0)) of
                     RunsForever \<Rightarrow> Inr (Blocked st3)
                   | Terminates child_status \<Rightarrow>
                       (let st4 = st3\<lparr>children := filter (\<lambda>e. fst e \<noteq> spawn_pid) (children st3)\<rparr>
                        in if WIFEXITED child_status
                           then Inr (Back (st4\<lparr>status := WEXITSTATUS child_status\<rparr>))
                           else Inr (Back
                                  ((printf (''terminated by signal ''
                                      @ sprintf_d (WTERMSIG child_status) @ ''\<newline>'') st4)
                                     \<lparr>status := WTERMSIG child_status\<rparr>))))))"

definition handle_command_line ::
  "os \<Rightarrow> tstp_schedule \<Rightarrow> int \<Rightarrow> command_line \<Rightarrow> shell_state \<Rightarrow> fault + launched" where
  "handle_command_line env sched spawn_pid cl st =
     (if command cl = ''cd'' then
        (if args_count cl = 1 then Inr (Back (change_dir env (getenv_HOME env) st))
         else Inr (Back (change_dir env (args cl ! 1) st)))
      else if command cl = ''status'' then Inr (Back (display_status st))
      else if 512 \<le> args_count cl then Inl BufferOverflow
      else fork_child env sched spawn_pid
             (cl\<lparr>args := args cl @ [None], args_count := args_count cl + 1\<rparr>) st)"

subsection \<open>Background processes\<close>

text \<open>
  \<open>waitpid(pid, &child_status, WNOHANG)\<close> for one child: the value returned, the
  content of \<open>child_status\<close> afterwards and the process table afterwards. A child that
  has terminated is reaped, a running one gives 0, and a pid that is not a child of the
  shell gives -1; in the last two cases \<open>child_status\<close> is not written.
\<close>

definition waitpid_nohang ::
  "int \<Rightarrow> wait_status \<Rightarrow> process_table \<Rightarrow> int \<times> wait_status \<times> process_table" where
  "waitpid_nohang pid child_status procs =
     (case map_of procs pid of
        None \<Rightarrow> (- 1, child_status, procs)
      | Some Running \<Rightarrow> (0, child_status, procs)
      | Some (Zombie ws) \<Rightarrow> (pid, ws, filter (\<lambda>e. fst e \<noteq> pid) procs))"

text \<open>The inner loop of \<open>remove_val_at_index\<close>.\<close>

function shift_left :: "nat \<Rightarrow> int \<Rightarrow> int list \<Rightarrow> int list" where
  "shift_left i arr_length arr =
     (if int i < arr_length - 1 then shift_left (i + 1) arr_length (arr[i := arr ! (i + 1)])
      else arr)"
  by pat_completeness auto
termination
  by (relation "measure (\<lambda>(i, n, arr). nat (n - 1 - int i))") auto

declare shift_left.simps [simp del]

definition remove_val_at_index :: "int list \<Rightarrow> int \<Rightarrow> nat \<Rightarrow> int list \<times> int" where
  "remove_val_at_index arr arr_length index = (shift_left index arr_length arr, arr_length - 1)"

definition report :: "int \<Rightarrow> wait_status \<Rightarrow> string" where
  "report pid_check child_status =
     (if WIFEXITED child_status
      then ''background pid '' @ sprintf_d pid_check @ '' is done: exit value ''
             @ sprintf_d (WEXITSTATUS child_status) @ ''\<newline>''
      else ''background pid '' @ sprintf_d pid_check @ '' is done: terminated by signal ''
             @ sprintf_d (WTERMSIG child_status) @ ''\<newline>'')"

text \<open>
  The \<open>for\<close> loop of \<open>check_background_procs\<close>. \<open>arr_length\<close> is the count read once
  before the loop; after a removal \<open>i\<close> is rolled back, so the next pass looks at the same
  index. The result is \<open>None\<close> when the loop never ends.
\<close>

partial_function (option) reap_loop ::
  "nat \<Rightarrow> int \<Rightarrow> int list \<Rightarrow> int \<Rightarrow> wait_status \<Rightarrow> process_table \<Rightarrow> string
   \<Rightarrow> (int list \<times> int \<times> process_table \<times> string) option" where
  "reap_loop i arr_length arr cnt child_status procs out =
     (if int i < arr_length then
        (case waitpid_nohang (arr ! i) child_status procs of
           (pid_check, child_status', procs') \<Rightarrow>
             if pid_check = arr ! i then
               (case remove_val_at_index arr cnt i of
                  (arr', cnt') \<Rightarrow>
                    reap_loop i arr_length arr' cnt' child_status' procs'
                      (out @ report pid_check child_status'))
             else reap_loop (i + 1) arr_length arr cnt child_status' procs' out)
      else Some (arr, cnt, procs, out))"

text \<open>
  \<open>check_background_procs\<close>: \<open>garbage\<close> is the initial content of the local
  \<open>child_status\<close>. Reading \<open>background_procs[i]\<close> for every \<open>i\<close> below the count is a fault
  when the count exceeds the allocated block.
\<close>

definition check_background_procs ::
  "wait_status \<Rightarrow> shell_state \<Rightarrow> (fault + shell_state) option" where
  "check_background_procs garbage st =
     (if int (length (background_procs st)) < bg_proc_count st then Some (Inl BufferOverflow)
      else
        (case reap_loop 0 (bg_proc_count st) (background_procs st) (bg_proc_count st)
                garbage (children st) (terminal st) of
           None \<Rightarrow> None
         | Some (arr, cnt, procs, out) \<Rightarrow>
             Some (Inr (st\<lparr>background_procs := arr, bg_proc_count := cnt,
                            children := procs, terminal := out\<rparr>))))"

text \<open>
  \<open>kill(pid, SIGKILL)\<close> does not wait for the child to die: when the \<open>waitpid\<close> with
  \<open>WNOHANG\<close> that follows looks at the child, the kernel may or may not have terminated
  it. \<open>dead pid\<close> says whether it has; a child that is still running then stays in the
  table, and \<open>kill_children\<close> leaves it behind.
\<close>

definition kill_SIGKILL :: "bool \<Rightarrow> int \<Rightarrow> process_table \<Rightarrow> process_table" where
  "kill_SIGKILL terminated pid procs =
     (if terminated
      then map (\<lambda>(p, s). if p = pid \<and> s = Running then (p, Zombie (Signaled 9)) else (p, s)) procs
      else procs)"

definition kill_children ::
  "wait_status \<Rightarrow> (int \<Rightarrow> bool) \<Rightarrow> shell_state \<Rightarrow> fault + shell_state" where
  "kill_children garbage dead st =
     (if int (length (background_procs st)) < bg_proc_count st then Inl BufferOverflow
      else Inr (st\<lparr>children :=
                    foldl (\<lambda>procs pid.
                             snd (snd (waitpid_nohang pid garbage (kill_SIGKILL (dead pid) pid procs))))
                      (children st) (take (nat (bg_proc_count st)) (background_procs st))\<rparr>))"

subsection \<open>The shell loop\<close>

definition isspace :: "char \<Rightarrow> bool" where
  "isspace c = (c = CHR '' '' \<or> c = CHR 0x09 \<or> c = CHR ''\<newline>'' \<or> c = CHR 0x0B
                \<or> c = CHR 0x0C \<or> c = CHR 0x0D)"

text \<open>
  The condition of the inner \<open>do ... while\<close> of \<open>main\<close>:
  \<open>isspace(command_line_str[0]) | (command_line_str[0] == '#')\<close>. The first character
  of the empty string is the NUL.
\<close>

definition skip_line :: "string \<Rightarrow> bool" where
  "skip_line command_line_str =
     (case command_line_str of [] \<Rightarrow> False | c # cs \<Rightarrow> isspace c \<or> c = CHR ''#'')"

text \<open>
  What happens around one call of \<open>get_command_line\<close>: the children that have terminated
  since the last turn, a SIGTSTP at the prompt, whether \<open>getline\<close> succeeded and the
  content of its buffer; for a command that is launched, what \<open>fork()\<close> returns and
  the signals during the launch; and, for \<open>exit\<close>, which of the killed children have
  terminated by the time \<open>kill_children\<close> looks at them.
\<close>

record turn_input =
  exits :: "(int \<times> wait_status) list"
  garbage :: wait_status
  tstp_at_prompt :: bool
  lread_ok :: bool
  buffer :: string
  spawn_pid :: int
  sched :: tstp_schedule
  sigkill_done :: "int \<Rightarrow> bool"

definition os_progress :: "(int \<times> wait_status) list \<Rightarrow> process_table \<Rightarrow> process_table" where
  "os_progress ex procs =
     map (\<lambda>(p, s). case (s, map_of ex p) of
                      (Running, Some ws) \<Rightarrow> (p, Zombie ws)
                    | _ \<Rightarrow> (p, s)) procs"

definition get_command_line :: "turn_input \<Rightarrow> shell_state \<Rightarrow> string \<times> shell_state" where
  "get_command_line inp st =
     (let st1 = deliver (tstp_at_prompt inp) (printf '': '' st)
      in (buffer inp, if lread_ok inp then st1 else printf ''error reading line\<newline>'' st1))"

datatype turn =
    Skip shell_state
  | Exiting shell_state
  | Dispatched command_line launched

text \<open>
  One pass through the body of the inner loop of \<open>main\<close> and, when the loop is left, the
  rest of the body of the outer loop. \<open>Skip\<close>: the inner loop repeats. \<open>Exiting\<close>: the line
  was \<open>exit\<close>, the children are killed and \<open>main\<close> returns. \<open>Dispatched\<close>:
  \<open>handle_command_line\<close> was called with the parsed command.
\<close>

definition main_turn :: "os \<Rightarrow> turn_input \<Rightarrow> shell_state \<Rightarrow> (fault + turn) option" where
  "main_turn env inp st =
     (case check_background_procs (garbage inp)
             (st\<lparr>children := os_progress (exits inp) (children st)\<rparr>) of
        None \<Rightarrow> None
      | Some (Inl f) \<Rightarrow> Some (Inl f)
      | Some (Inr st1) \<Rightarrow>
          (case get_command_line inp st1 of
             (command_line_str, st2) \<Rightarrow>
               if skip_line command_line_str then Some (Inr (Skip st2))
               else if command_line_str = ''exit\<newline>'' then
                 (case kill_children (garbage inp) (sigkill_done inp) st2 of
                    Inl f \<Rightarrow> Some (Inl f)
                  | Inr st3 \<Rightarrow> Some (Inr (Exiting st3)))
               else
                 (case variable_expansion (getpid env) command_line_str of
                    Inl f \<Rightarrow> Some (Inl f)
                  | Inr command_line_expanded \<Rightarrow>
                      (case parse_command_line command_line_expanded of
                         Inl f \<Rightarrow> Some (Inl f)
                       | Inr command_line_parsed \<Rightarrow>
                           (case handle_command_line env (sched inp) (spawn_pid inp)
                                   command_line_parsed st2 of
                              Inl f \<Rightarrow> Some (Inl f)
                            | Inr l \<Rightarrow> Some (Inr (Dispatched command_line_parsed l)))))))"

subsection \<open>Notions of the specification\<close>

text \<open>
  The Background Job Registry: the tracked process identifiers, in order. A tracked
  child has terminated when the process table holds its status; \<open>reports\<close> is the text
  that one reap pass owes the user for a list of identifiers, and \<open>reaped\<close> is the process
  table once their terminated children have been collected.
\<close>

definition registry :: "shell_state \<Rightarrow> int list" where
  "registry st = take (nat (bg_proc_count st)) (background_procs st)"





text \<open>The two redirection operators, as tokens.\<close>

definition is_redirect :: "string \<Rightarrow> bool" where
  "is_redirect token = (token = ''<'' \<or> token = ''>'')"


text \<open>
  Background eligibility of a command, as \<open>fork_child\<close> evaluates it: once when it
  registers the child, and once more when it chooses between waiting and returning.
\<close>

definition eligible_at_register :: "tstp_schedule \<Rightarrow> command_line \<Rightarrow> shell_state \<Rightarrow> bool" where
  "eligible_at_register sch cl st =
     (run_in_background cl \<and> \<not> foreground_only (deliver (before_register sch) st))"

definition eligible_at_wait :: "tstp_schedule \<Rightarrow> command_line \<Rightarrow> shell_state \<Rightarrow> bool" where
  "eligible_at_wait sch cl st =
     (run_in_background cl
      \<and> \<not> foreground_only (deliver (before_wait sch) (deliver (before_register sch) st)))"

text \<open>The shell's state after a launch or a turn, where the process is still the shell.\<close>

fun shell_after :: "launched \<Rightarrow> shell_state option" where
  "shell_after (ShellExit code st) = Some st"
| "shell_after (InChild e) = None"
| "shell_after (Back st) = Some st"
| "shell_after (Blocked st) = Some st"

fun turn_after :: "turn \<Rightarrow> shell_state option" where
  "turn_after (Skip st) = Some st"
| "turn_after (Exiting st) = Some st"
| "turn_after (Dispatched cl l) = shell_after l"

text \<open>A line of white space only, and the first character of a line that is not white space.\<close>

definition blank :: "string \<Rightarrow> bool" where
  "blank line = list_all isspace line"

definition first_nonspace :: "string \<Rightarrow> char option" where
  "first_nonspace line = (case dropWhile isspace line of [] \<Rightarrow> None | c # cs \<Rightarrow> Some c)"

text \<open>
  Concrete surroundings for the examples: no signal during a launch; a system in which
  the files \<open>input.txt\<close> and \<open>/dev/null\<close> can be read, every file can be written, every
  program is found and ends as \<open>fate\<close> says; and a command \<open>prog\<close> as
  \<open>handle_command_line\<close> hands it to \<open>fork_child\<close>.
\<close>

definition quiet :: tstp_schedule where
  "quiet = \<lparr>before_register = False, before_wait = False, before_sigint = False,
            before_ignore = False\<rparr>"

definition demo_os :: "child_fate \<Rightarrow> os" where
  "demo_os fate =
     \<lparr>getpid = 4242, getenv_HOME = Some ''/home'', chdir = (\<lambda>dir path. path),
      open_rdonly = (\<lambda>path. path = ''input.txt'' \<or> path = ''/dev/null''),
      open_wronly = (\<lambda>path. True), dup2_ok = (\<lambda>path fd. True),
      execvp_ok = (\<lambda>argv. True), image_fate = (\<lambda>argv. fate)\<rparr>"

definition demo_cmd :: "string option \<Rightarrow> bool \<Rightarrow> command_line" where
  "demo_cmd path bg =
     \<lparr>command = ''prog'', args = [Some ''prog'', None], args_count = 2, input_file = path,
      output_file = None, run_in_background = bg\<rparr>"

text \<open>A turn at the prompt of a shell without children: the line is read, nothing else happens.\<close>

definition demo_turn :: "string \<Rightarrow> turn_input" where
  "demo_turn line =
     \<lparr>exits = [], garbage = Exited 0, tstp_at_prompt = False, lread_ok = True, buffer = line,
      spawn_pid = 77, sched = quiet, sigkill_done = (\<lambda>pid. False)\<rparr>"

text \<open>A registry that fills the allocated block of 100 entries.\<close>

definition full_registry :: shell_state where
  "full_registry =
     (init_state ''/'')\<lparr>background_procs := map int [1..<101], bg_proc_count := 100\<rparr>"

section \<open>Variable expansion replaces every \<open>$$\<close>\<close>

lemma strstr_dd_Cons:
  "strstr (a # rest) ''$$'' =
     (if a = CHR ''$'' \<and> rest \<noteq> [] \<and> hd rest = CHR ''$'' then Some 0
      else map_option Suc (strstr rest ''$$''))"
  by (cases rest) auto

lemma expansion_loop_dd:
  "expansion_loop pid acc (CHR ''$'' # CHR ''$'' # cs) =
     (if 2048 < length acc + length pid + 1 then Inl BufferOverflow
      else expansion_loop pid (acc @ pid) cs)"
  by (subst expansion_loop.simps) (simp add: strncat_def strcat_def)

lemma expansion_loop_other:
  assumes "\<not> (a = CHR ''$'' \<and> hd rest = CHR ''$'')" and "rest \<noteq> []"
  shows "expansion_loop pid acc (a # rest) = expansion_loop pid (acc @ [a]) rest"
proof -
  obtain r rs where rest: "rest = r # rs" using assms(2) by (cases rest) auto
  have s: "strstr (a # rest) ''$$'' = map_option Suc (strstr rest ''$$'')"
    using assms unfolding strstr_dd_Cons by auto
  show ?thesis
  proof (cases "strstr rest ''$$''")
    case None
    then show ?thesis
      using s rest
      by (subst expansion_loop.simps, subst (2) expansion_loop.simps)
         (simp add: strncat_def size_t_sub_def)
  next
    case (Some k)
    then show ?thesis
      using s
      by (subst expansion_loop.simps, subst (2) expansion_loop.simps)
         (simp add: strncat_def strcat_def)
  qed
qed

lemma expansion_loop_last:
  "c \<noteq> CHR ''$'' \<Longrightarrow> length acc < 2048 \<Longrightarrow> expansion_loop pid acc [c] = Inr acc"
  by (subst expansion_loop.simps) (simp add: strncat_def size_t_sub_def)

lemma expansion_loop_replace:
  "c \<noteq> CHR ''$'' \<Longrightarrow> length (acc @ replace_all_dd pid body) < 2048 \<Longrightarrow>
   expansion_loop pid acc (body @ [c]) = Inr (acc @ replace_all_dd pid body)"
proof (induction pid body arbitrary: acc rule: replace_all_dd.induct)
  case (1 pid a b cs)
  show ?case
  proof (cases "a = CHR ''$'' \<and> b = CHR ''$''")
    case True
    then show ?thesis using 1 by (simp add: expansion_loop_dd)
  next
    case False
    then have r: "replace_all_dd pid (a # b # cs) = a # replace_all_dd pid (b # cs)"
      by auto
    have "expansion_loop pid acc ((a # b # cs) @ [c]) =
          expansion_loop pid (acc @ [a]) ((b # cs) @ [c])"
      using False expansion_loop_other [of a "b # cs @ [c]" pid acc] by simp
    also have "\<dots> = Inr ((acc @ [a]) @ replace_all_dd pid (b # cs))"
      using "1.prems" r by (intro "1.IH"(2) [OF False]) simp_all
    finally show ?thesis unfolding r by simp
  qed
next
  case (2 pid v)
  then show ?case
    using expansion_loop_other [of v "[c]" pid acc] by (simp add: expansion_loop_last)
next
  case (3 pid)
  then show ?case by (simp add: expansion_loop_last)
qed

lemma replace_all_dd_none: "strstr body ''$$'' = None \<Longrightarrow> replace_all_dd pid body = body"
  by (induction pid body rule: replace_all_dd.induct) (auto split: if_splits)


text \<open>
  C2, as the code has it. For a line that ends in a newline and whose expansion fits the
  buffer of 2048 bytes, \<open>variable_expansion\<close> replaces each \<open>$$\<close>, from left to right and
  without overlap, by the decimal process identifier, keeps every other character of the
  line, and drops the final newline; a line without \<open>$$\<close> comes back as it is, but for
  that newline.
\<close>

theorem variable_expansion_replaces:
  assumes "length (replace_all_dd (sprintf_d shell_pid) body) < 2048"
  shows "variable_expansion shell_pid (body @ ''\<newline>'') = Inr (replace_all_dd (sprintf_d shell_pid) body)
       \<and> (strstr body ''$$'' = None \<longrightarrow> variable_expansion shell_pid (body @ ''\<newline>'') = Inr body)"
  using assms expansion_loop_replace [of "CHR ''\<newline>''" "[]" "sprintf_d shell_pid" body]
  by (auto simp: variable_expansion_def replace_all_dd_none)

lemma sprintf_d_4242: "sprintf_d 4242 = ''4242''"
  by code_simp

theorem variable_expansion_replaces_witness:
  "variable_expansion 4242 ''echo $$ a$$$b\<newline>'' = Inr ''echo 4242 a4242$b''
   \<and> variable_expansion 4242 ''echo hi\<newline>'' = Inr ''echo hi''"
  using variable_expansion_replaces [of 4242 "''echo $$ a$$$b''"]
    variable_expansion_replaces [of 4242 "''echo hi''"]
  by (simp add: sprintf_d_4242)

text \<open>
  The claim as the specification states it fails: the expansion of a line without \<open>$$\<close>
  is not that line, since the last character is removed.
\<close>

theorem variable_expansion_identity_counterexample:
  "variable_expansion 4242 ''ls\<newline>'' = Inr ''ls''
   \<and> variable_expansion 4242 ''ls\<newline>'' \<noteq> Inr ''ls\<newline>''"
  by (simp add: variable_expansion_def expansion_loop_other expansion_loop_last)

section \<open>The reap pass\<close>



























section \<open>Redirection operators without a path\<close>

lemma parse_loop_dangling:
  "is_redirect op \<Longrightarrow> (ts \<noteq> [] \<longrightarrow> \<not> is_redirect (last ts)) \<Longrightarrow>
   args_count c + length ts < 512 \<Longrightarrow> parse_loop (ts @ [op]) c = Inl NullDereference"
proof (induction ts arbitrary: c rule: length_induct)
  case (1 ts)
  show ?case
  proof (cases ts)
    case Nil
    then show ?thesis using 1(2) by (auto simp: is_redirect_def)
  next
    case (Cons t ts')
    show ?thesis
    proof (cases "is_redirect t")
      case True
      then obtain p ts'' where ts': "ts' = p # ts''"
        using 1(3) Cons by (cases ts') auto
      have "parse_loop (ts'' @ [op]) c' = Inl NullDereference" if "args_count c' = args_count c" for c'
        using 1(1) [rule_format, of ts'' c'] 1(2,3,4) Cons ts' that by (auto split: if_splits)
      then show ?thesis using True Cons ts' by (auto simp: is_redirect_def)
    next
      case False
      have "parse_loop (ts' @ [op]) c' = Inl NullDereference" if "args_count c' = args_count c + 1" for c'
        using 1(1) [rule_format, of ts' c'] 1(2,3,4) Cons that by (auto split: if_splits)
      then show ?thesis using False Cons 1(4) by (auto simp: is_redirect_def)
    qed
  qed
qed

lemma parse_loop_followed:
  "ts \<noteq> [] \<longrightarrow> \<not> is_redirect (last ts) \<Longrightarrow> parse_loop ts c \<noteq> Inl NullDereference"
proof (induction ts arbitrary: c rule: length_induct)
  case (1 ts)
  show ?case
  proof (cases ts)
    case Nil
    then show ?thesis by simp
  next
    case (Cons t ts')
    show ?thesis
    proof (cases "is_redirect t")
      case True
      then obtain p ts'' where ts': "ts' = p # ts''"
        using 1(2) Cons by (cases ts') auto
      have "parse_loop ts'' c' \<noteq> Inl NullDereference" for c'
        using 1(1) [rule_format, of ts'' c'] 1(2) Cons ts' by (auto split: if_splits)
      then show ?thesis using True Cons ts' by (auto simp: is_redirect_def)
    next
      case False
      have "parse_loop ts' c' \<noteq> Inl NullDereference" for c'
        using 1(1) [rule_format, of ts' c'] 1(2) Cons by (auto split: if_splits)
      then show ?thesis using False Cons by (auto simp: is_redirect_def)
    qed
  qed
qed

text \<open>
  C10, as the code has it. When the last token of a line of at least two and at most 512
  tokens is a bare \<open><\<close> or \<open>>\<close> and the token before it is the command or is not itself a
  bare \<open><\<close> or \<open>>\<close>, the parser reaches that operator, fetches the token after it and
  dereferences the null pointer it gets. When the last token of a line is not a bare \<open><\<close>
  or \<open>>\<close>, every operator that the parser meets is followed by a token, and the null
  pointer is never dereferenced.
\<close>

theorem parse_command_line_redirect_operand:
  "(2 \<le> length (strtok_r_all line) \<and> length (strtok_r_all line) \<le> 512
      \<and> is_redirect (last (strtok_r_all line))
      \<and> (length (strtok_r_all line) = 2
           \<or> \<not> is_redirect (strtok_r_all line ! (length (strtok_r_all line) - 2)))
    \<longrightarrow> parse_command_line line = Inl NullDereference)
   \<and> (strtok_r_all line \<noteq> [] \<and> \<not> is_redirect (last (strtok_r_all line))
    \<longrightarrow> parse_command_line line \<noteq> Inl NullDereference)"
proof (intro conjI impI)
  assume a: "2 \<le> length (strtok_r_all line) \<and> length (strtok_r_all line) \<le> 512
      \<and> is_redirect (last (strtok_r_all line))
      \<and> (length (strtok_r_all line) = 2
           \<or> \<not> is_redirect (strtok_r_all line ! (length (strtok_r_all line) - 2)))"
  then obtain cmd rest where toks: "strtok_r_all line = cmd # rest"
    by (cases "strtok_r_all line") auto
  then have "rest \<noteq> []" using a by auto
  then obtain ts op where rest: "rest = ts @ [op]"
    by (metis append_butlast_last_id)
  have op: "is_redirect op" using a toks rest by simp
  have "ts \<noteq> [] \<longrightarrow> \<not> is_redirect (last ts)"
  proof
    assume ne: "ts \<noteq> []"
    then have "(cmd # ts @ [op]) ! (length (cmd # ts @ [op]) - 2) = last ts"
      by (simp add: nth_append last_conv_nth)
    then show "\<not> is_redirect (last ts)" using a toks rest ne by auto
  qed
  then have "parse_loop (ts @ [op])
               (initialize_struct\<lparr>command := cmd, args := [Some cmd], args_count := 1\<rparr>)
             = Inl NullDereference"
    using op a toks rest by (intro parse_loop_dangling) auto
  then show "parse_command_line line = Inl NullDereference"
    using toks rest by (simp add: parse_command_line_def)
next
  assume a: "strtok_r_all line \<noteq> [] \<and> \<not> is_redirect (last (strtok_r_all line))"
  then obtain cmd rest where toks: "strtok_r_all line = cmd # rest"
    by (cases "strtok_r_all line") auto
  have "rest \<noteq> [] \<longrightarrow> \<not> is_redirect (last rest)" using a toks by auto
  then have "parse_loop rest
               (initialize_struct\<lparr>command := cmd, args := [Some cmd], args_count := 1\<rparr>)
             \<noteq> Inl NullDereference"
    by (rule parse_loop_followed)
  then show "parse_command_line line \<noteq> Inl NullDereference"
    using toks by (auto simp: parse_command_line_def split: sum.splits)
qed

lemma tok1: "strtok_r_all ''sort <'' = [''sort'', ''<'']"
  by (simp add: strtok_r_all_def)

lemma tok2: "strtok_r_all ''ls -l'' = [''ls'', ''-l'']"
  by (simp add: strtok_r_all_def)

theorem parse_command_line_redirect_operand_witness:
  "parse_command_line ''sort <'' = Inl NullDereference
   \<and> parse_command_line ''ls -l'' \<noteq> Inl NullDereference"
  using parse_command_line_redirect_operand [of "''sort <''"]
    parse_command_line_redirect_operand [of "''ls -l''"]
  by (simp add: tok1 tok2 is_redirect_def)

text \<open>
  The claim as stated fails: a final \<open>>\<close> that follows \<open><\<close> is taken as the input path,
  and the line is parsed without any null pointer.
\<close>

theorem parse_command_line_final_operator_counterexample:
  "last (strtok_r_all ''ls < >'') = ''>''
   \<and> parse_command_line ''ls < >''
       = Inr \<lparr>command = ''ls'', args = [Some ''ls''], args_count = 1, input_file = Some ''>'',
              output_file = None, run_in_background = False\<rparr>"
  by (simp add: strtok_r_all_def parse_command_line_def initialize_struct_def)

section \<open>Launching in the foreground and in the background\<close>

lemma foreground_only_deliver_neq:
  "foreground_only (deliver b st) = (foreground_only st \<noteq> b)"
  by (simp add: deliver_def handle_SIGTSTP_def printf_def)

lemma deliver_children_update:
  "deliver b (st\<lparr>children := c\<rparr>) = (deliver b st)\<lparr>children := c\<rparr>"
  by (simp add: deliver_def handle_SIGTSTP_def printf_def)

lemma deliver_registry_update:
  "deliver b (st\<lparr>background_procs := a, bg_proc_count := n\<rparr>)
   = (deliver b st)\<lparr>background_procs := a, bg_proc_count := n\<rparr>"
  by (simp add: deliver_def handle_SIGTSTP_def printf_def)

lemma deliver_frame:
  "status (deliver b st) = status st \<and> background_procs (deliver b st) = background_procs st
   \<and> bg_proc_count (deliver b st) = bg_proc_count st \<and> cwd (deliver b st) = cwd st
   \<and> children (deliver b st) = children st"
  by (simp add: deliver_def handle_SIGTSTP_def printf_def)

lemma fork_child_parent_foreground:
  assumes "pid \<noteq> 0" and "pid \<noteq> - 1"
    and "\<not> eligible_at_register sch cl st" and "\<not> eligible_at_wait sch cl st"
  shows "fork_child env sch pid cl st =
     (let st3 = (deliver (before_wait sch) (deliver (before_register sch) st))
                   \<lparr>children := children st @ [(pid, Running)]\<rparr>
      in case fate_of env (child_process env sch cl (child_of st)) of
           RunsForever \<Rightarrow> Inr (Blocked st3)
         | Terminates ws \<Rightarrow>
             (let st4 = st3\<lparr>children := filter (\<lambda>e. fst e \<noteq> pid) (children st3)\<rparr>
              in if WIFEXITED ws then Inr (Back (st4\<lparr>status := WEXITSTATUS ws\<rparr>))
                 else Inr (Back ((printf (''terminated by signal '' @ sprintf_d (WTERMSIG ws)
                                    @ ''\<newline>'') st4)\<lparr>status := WTERMSIG ws\<rparr>))))"
proof -
  let ?st1 = "deliver (before_register sch) st"
  let ?st3 = "deliver (before_wait sch) (?st1\<lparr>children := children ?st1 @ [(pid, Running)]\<rparr>)"
  have e: "(before_register sch \<and> pid \<noteq> 0) = before_register sch"
    using assms(1) by simp
  have r: "(run_in_background cl \<and> \<not> foreground_only ?st1) = False"
    using assms(3) by (simp add: eligible_at_register_def)
  have w: "(run_in_background cl \<and> \<not> foreground_only ?st3) = False"
    using assms(4) by (simp add: eligible_at_wait_def deliver_children_update)
  show ?thesis
    unfolding fork_child_def Let_def e r
    using assms(1,2) assms(4) [unfolded eligible_at_wait_def]
    by (auto simp: deliver_children_update deliver_frame split: child_fate.split)
qed

lemma fork_child_parent_background:
  assumes "pid \<noteq> 0" and "pid \<noteq> - 1"
    and "eligible_at_register sch cl st" and "eligible_at_wait sch cl st"
    and "0 \<le> bg_proc_count st" and "bg_proc_count st < int (length (background_procs st))"
  shows "fork_child env sch pid cl st =
     Inr (Back (printf (''background PID is '' @ sprintf_d pid @ ''\<newline>'')
       ((deliver (before_wait sch) (deliver (before_register sch) st))
          \<lparr>background_procs := (background_procs st)[nat (bg_proc_count st) := pid],
           bg_proc_count := bg_proc_count st + 1,
           children := children st @ [(pid, Running)]\<rparr>)))"
proof -
  let ?st1 = "deliver (before_register sch) st"
  let ?st2 = "?st1\<lparr>background_procs := (background_procs ?st1)[nat (bg_proc_count ?st1) := pid],
                   bg_proc_count := bg_proc_count ?st1 + 1\<rparr>"
  let ?st3 = "deliver (before_wait sch) (?st2\<lparr>children := children ?st2 @ [(pid, Running)]\<rparr>)"
  have e: "(before_register sch \<and> pid \<noteq> 0) = before_register sch"
    using assms(1) by simp
  have r: "(run_in_background cl \<and> \<not> foreground_only ?st1) = True"
    using assms(3) by (simp add: eligible_at_register_def)
  have b: "(0 \<le> bg_proc_count ?st1
            \<and> bg_proc_count ?st1 < int (length (background_procs ?st1))) = True"
    using assms(5,6) by (simp add: deliver_frame)
  have w: "(run_in_background cl \<and> \<not> foreground_only ?st3) = True"
    using assms(4) by (simp add: eligible_at_wait_def foreground_only_deliver_neq)
  show ?thesis
    unfolding fork_child_def Let_def e r b if_True sum.case w
    using assms(1,2)
    by (simp add: deliver_children_update deliver_registry_update deliver_frame)
qed

lemma sprintf_d_77: "sprintf_d 77 = ''77''"
  by code_simp

lemma demo_fate:
  "fate_of (demo_os fate) (child_process (demo_os fate) quiet (demo_cmd None False) ch) = fate"
  by (simp add: child_process_def demo_os_def quiet_def demo_cmd_def c_deliver_def
      restore_SIGINT_def ignore_SIGTSTP_def input_redirect_def output_redirect_def Let_def)

lemma demo_cmd_foreground:
  "\<not> eligible_at_register sch (demo_cmd path False) st
   \<and> \<not> eligible_at_wait sch (demo_cmd path False) st"
  by (simp add: eligible_at_register_def eligible_at_wait_def demo_cmd_def)

lemma deliver_quiet: "deliver (before_wait quiet) (deliver (before_register quiet) st) = st"
  by (simp add: quiet_def deliver_def)

text \<open>
  C7 at an input where the code departs from it. In foreground-only mode a command
  marked \<open>&\<close> is not background-eligible when it is launched, and it is not registered.
  When a SIGTSTP arrives before the second test of \<open>foreground_only\<close>, that test finds
  the command eligible: the shell prints the child's identifier and returns at once. It
  has not waited for the child, which is still running and is tracked nowhere, and
  \<open>status\<close> is what it was, whatever the child will exit with.
\<close>

theorem fork_child_foreground_not_waited:
  "\<not> eligible_at_register (quiet\<lparr>before_wait := True\<rparr>) (demo_cmd None True)
        ((init_state ''/'')\<lparr>foreground_only := True\<rparr>)
   \<and> (\<exists>st'. fork_child (demo_os (Terminates (Exited 3))) (quiet\<lparr>before_wait := True\<rparr>) 77
               (demo_cmd None True) ((init_state ''/'')\<lparr>foreground_only := True\<rparr>)
             = Inr (Back st')
          \<and> status st' = 0 \<and> registry st' = [] \<and> children st' = [(77, Running)]
          \<and> terminal st'
              = ''\<newline>Exiting foreground-only mode\<newline>: background PID is 77\<newline>'')"
proof
  show "\<not> eligible_at_register (quiet\<lparr>before_wait := True\<rparr>) (demo_cmd None True)
          ((init_state ''/'')\<lparr>foreground_only := True\<rparr>)"
    by (simp add: eligible_at_register_def quiet_def demo_cmd_def deliver_def)
  show "\<exists>st'. fork_child (demo_os (Terminates (Exited 3))) (quiet\<lparr>before_wait := True\<rparr>) 77
               (demo_cmd None True) ((init_state ''/'')\<lparr>foreground_only := True\<rparr>)
             = Inr (Back st')
          \<and> status st' = 0 \<and> registry st' = [] \<and> children st' = [(77, Running)]
          \<and> terminal st'
              = ''\<newline>Exiting foreground-only mode\<newline>: background PID is 77\<newline>''"
    by (simp add: fork_child_def Let_def quiet_def demo_cmd_def init_state_def deliver_def
        handle_SIGTSTP_def printf_def registry_def sprintf_d_77)
qed

section \<open>An input file that cannot be opened\<close>

lemma child_process_unopenable:
  assumes "input_file cl = Some path" and "\<not> open_rdonly env path"
  shows "\<exists>ch. child_process env sch cl ch0 = ExitedBeforeImage 1 ch"
  using assms by (simp add: child_process_def input_redirect_def Let_def)

text \<open>
  C3, as the code has it. When the input path of a command cannot be opened, the child
  exits with status 1 before it replaces its image. Launched in the foreground, the
  shell then stores that 1 in \<open>status\<close>, prints nothing of its own and leaves the registry
  as it was; launched in the background, the shell leaves \<open>status\<close> as it was.
\<close>

theorem input_redirect_unopenable:
  assumes "input_file cl = Some path" and "\<not> open_rdonly env path"
  shows "(\<exists>ch. child_process env sch cl ch0 = ExitedBeforeImage 1 ch)
       \<and> (pid \<noteq> 0 \<and> pid \<noteq> - 1 \<and> \<not> eligible_at_register sch cl st
            \<and> \<not> eligible_at_wait sch cl st
          \<longrightarrow> (\<exists>st'. fork_child env sch pid cl st = Inr (Back st') \<and> status st' = 1
                 \<and> background_procs st' = background_procs st
                 \<and> bg_proc_count st' = bg_proc_count st
                 \<and> terminal st'
                     = terminal (deliver (before_wait sch) (deliver (before_register sch) st))))
       \<and> (pid \<noteq> 0 \<and> pid \<noteq> - 1 \<and> eligible_at_register sch cl st \<and> eligible_at_wait sch cl st
            \<and> 0 \<le> bg_proc_count st \<and> bg_proc_count st < int (length (background_procs st))
          \<longrightarrow> (\<exists>st'. fork_child env sch pid cl st = Inr (Back st') \<and> status st' = status st))"
proof (intro conjI impI)
  show "\<exists>ch. child_process env sch cl ch0 = ExitedBeforeImage 1 ch"
    using assms by (rule child_process_unopenable)
next
  assume a: "pid \<noteq> 0 \<and> pid \<noteq> - 1 \<and> \<not> eligible_at_register sch cl st
            \<and> \<not> eligible_at_wait sch cl st"
  obtain ch where "child_process env sch cl (child_of st) = ExitedBeforeImage 1 ch"
    using child_process_unopenable [OF assms] by blast
  then have "fate_of env (child_process env sch cl (child_of st)) = Terminates (Exited 1)"
    by simp
  then show "\<exists>st'. fork_child env sch pid cl st = Inr (Back st') \<and> status st' = 1
                 \<and> background_procs st' = background_procs st
                 \<and> bg_proc_count st' = bg_proc_count st
                 \<and> terminal st'
                     = terminal (deliver (before_wait sch) (deliver (before_register sch) st))"
    using a by (simp add: fork_child_parent_foreground Let_def deliver_frame)
next
  assume a: "pid \<noteq> 0 \<and> pid \<noteq> - 1 \<and> eligible_at_register sch cl st \<and> eligible_at_wait sch cl st
            \<and> 0 \<le> bg_proc_count st \<and> bg_proc_count st < int (length (background_procs st))"
  then show "\<exists>st'. fork_child env sch pid cl st = Inr (Back st') \<and> status st' = status st"
    by (simp add: fork_child_parent_background printf_def deliver_frame)
qed

lemma demo_missing:
  "input_file (demo_cmd (Some ''missing.txt'') bg) = Some ''missing.txt''
   \<and> \<not> open_rdonly (demo_os fate) ''missing.txt''"
  by (simp add: demo_cmd_def demo_os_def)

lemma demo_cmd_background:
  "eligible_at_register quiet (demo_cmd path True) (init_state dir)
   \<and> eligible_at_wait quiet (demo_cmd path True) (init_state dir)"
  by (simp add: eligible_at_register_def eligible_at_wait_def demo_cmd_def quiet_def deliver_def
      init_state_def)

theorem input_redirect_unopenable_witness:
  "(\<exists>ch. child_process (demo_os RunsForever) quiet (demo_cmd (Some ''missing.txt'') False)
           (child_of (init_state ''/'')) = ExitedBeforeImage 1 ch)
   \<and> (\<exists>st'. fork_child (demo_os RunsForever) quiet 77 (demo_cmd (Some ''missing.txt'') False)
                (init_state ''/'') = Inr (Back st')
          \<and> status st' = 1 \<and> bg_proc_count st' = 0 \<and> terminal st' = [])
   \<and> (\<exists>st'. fork_child (demo_os RunsForever) quiet 77 (demo_cmd (Some ''missing.txt'') True)
                (init_state ''/'') = Inr (Back st')
          \<and> status st' = 0)"
  using input_redirect_unopenable [of "demo_cmd (Some ''missing.txt'') False" "''missing.txt''"
      "demo_os RunsForever" quiet "child_of (init_state ''/'')" 77 "init_state ''/''"]
    input_redirect_unopenable [of "demo_cmd (Some ''missing.txt'') True" "''missing.txt''"
      "demo_os RunsForever" quiet "child_of (init_state ''/'')" 77 "init_state ''/''"]
  by (simp add: demo_missing demo_cmd_foreground demo_cmd_background deliver_quiet)
     (auto simp: init_state_def)

text \<open>
  The claim as stated fails: after the foreground launch of a command whose input file
  does not exist, \<open>status\<close> is 1, where it was 0.
\<close>

theorem input_redirect_status_counterexample:
  "input_file (demo_cmd (Some ''missing.txt'') False) = Some ''missing.txt''
   \<and> \<not> open_rdonly (demo_os RunsForever) ''missing.txt''
   \<and> fork_child (demo_os RunsForever) quiet 77 (demo_cmd (Some ''missing.txt'') False)
        (init_state ''/'') = Inr (Back ((init_state ''/'')\<lparr>status := 1\<rparr>))
   \<and> status ((init_state ''/'')\<lparr>status := 1\<rparr>) \<noteq> status (init_state ''/'')"
proof -
  have "fate_of (demo_os RunsForever)
          (child_process (demo_os RunsForever) quiet (demo_cmd (Some ''missing.txt'') False)
             (child_of (init_state ''/''))) = Terminates (Exited 1)"
    using child_process_unopenable [of "demo_cmd (Some ''missing.txt'') False" "''missing.txt''"
        "demo_os RunsForever" quiet "child_of (init_state ''/'')"]
    by (auto simp: demo_missing)
  then have "fork_child (demo_os RunsForever) quiet 77 (demo_cmd (Some ''missing.txt'') False)
        (init_state ''/'') = Inr (Back ((init_state ''/'')\<lparr>status := 1\<rparr>))"
    by (simp add: fork_child_parent_foreground demo_cmd_foreground deliver_quiet Let_def)
       (simp add: init_state_def)
  then show ?thesis by (simp add: demo_missing init_state_def)
qed



section \<open>Last Foreground Status\<close>

lemma check_background_procs_frame:
  "check_background_procs cs0 st = Some (Inr st') \<Longrightarrow>
   status st' = status st \<and> foreground_only st' = foreground_only st \<and> cwd st' = cwd st"
  by (auto simp: check_background_procs_def split: if_splits option.splits)

lemma get_command_line_frame:
  "get_command_line inp st = (line, st') \<Longrightarrow> line = buffer inp \<and> status st' = status st"
  by (auto simp: get_command_line_def Let_def printf_def deliver_frame split: if_splits)

lemma kill_children_frame: "kill_children cs0 dead st = Inr st' \<Longrightarrow> status st' = status st"
  by (auto simp: kill_children_def split: if_splits)

lemma fork_child_status:
  assumes "fork_child env sch pid cl st = Inr l" and "shell_after l = Some st'"
    and "status st' \<noteq> status st"
  shows "l = Back st' \<and> \<not> (run_in_background cl \<and> \<not> foreground_only st')"
  using assms
  by (auto simp: fork_child_def Let_def deliver_frame printf_def deliver_children_update
      split: if_splits sum.splits child_fate.splits)

lemma builtin_status:
  "status (change_dir env path st) = status st \<and> status (display_status st) = status st"
  by (simp add: change_dir_def display_status_def printf_def split: option.splits)

lemma handle_command_line_status:
  assumes "handle_command_line env sch pid cl st = Inr l" and "shell_after l = Some st'"
    and "status st' \<noteq> status st"
  shows "l = Back st' \<and> command cl \<noteq> ''cd'' \<and> command cl \<noteq> ''status''
         \<and> \<not> (run_in_background cl \<and> \<not> foreground_only st')"
proof -
  have nb: "command cl \<noteq> ''cd'' \<and> command cl \<noteq> ''status''"
    using assms by (auto simp: handle_command_line_def builtin_status split: if_splits)
  then have "fork_child env sch pid (cl\<lparr>args := args cl @ [None], args_count := args_count cl + 1\<rparr>) st
             = Inr l"
    using assms(1) by (auto simp: handle_command_line_def split: if_splits)
  from fork_child_status [OF this assms(2,3)] nb show ?thesis by simp
qed

text \<open>
  C8. A reap pass leaves \<open>status\<close> as it was; so do the built-in commands \<open>cd\<close> and
  \<open>status\<close>, and so does a turn of the shell loop that reads \<open>exit\<close>. Whenever a turn of
  the loop ends with another \<open>status\<close> than it began with, the turn has dispatched a
  command that is no built-in and the shell has waited for it in the foreground.
\<close>

theorem status_only_set_by_foreground:
  "(check_background_procs cs0 st = Some (Inr st1) \<longrightarrow> status st1 = status st)
   \<and> (command cl = ''cd'' \<or> command cl = ''status''
      \<longrightarrow> (\<exists>st2. handle_command_line env sch pid cl st = Inr (Back st2) \<and> status st2 = status st))
   \<and> (buffer inp = ''exit\<newline>'' \<and> main_turn env inp st = Some (Inr t)
      \<longrightarrow> (\<exists>st3. t = Exiting st3 \<and> status st3 = status st))
   \<and> (main_turn env inp st = Some (Inr t) \<and> turn_after t = Some st4 \<and> status st4 \<noteq> status st
      \<longrightarrow> (\<exists>c. t = Dispatched c (Back st4) \<and> command c \<noteq> ''cd'' \<and> command c \<noteq> ''status''
               \<and> \<not> (run_in_background c \<and> \<not> foreground_only st4)))"
proof (intro conjI impI)
  assume "check_background_procs cs0 st = Some (Inr st1)"
  then show "status st1 = status st" by (simp add: check_background_procs_frame)
next
  assume "command cl = ''cd'' \<or> command cl = ''status''"
  then show "\<exists>st2. handle_command_line env sch pid cl st = Inr (Back st2) \<and> status st2 = status st"
    by (auto simp: handle_command_line_def builtin_status)
next
  assume a: "buffer inp = ''exit\<newline>'' \<and> main_turn env inp st = Some (Inr t)"
  then obtain st1 where c: "check_background_procs (garbage inp)
             (st\<lparr>children := os_progress (exits inp) (children st)\<rparr>) = Some (Inr st1)"
    by (auto simp: main_turn_def split: option.splits sum.splits)
  obtain line st2 where g: "get_command_line inp st1 = (line, st2)"
    by (cases "get_command_line inp st1") auto
  have l: "line = ''exit\<newline>''" using get_command_line_frame [OF g] a by simp
  have "status st2 = status st"
    using check_background_procs_frame [OF c] get_command_line_frame [OF g] by simp
  then show "\<exists>st3. t = Exiting st3 \<and> status st3 = status st"
    using a c g l
    by (auto simp: main_turn_def skip_line_def isspace_def dest: kill_children_frame
        split: sum.splits)
next
  assume a: "main_turn env inp st = Some (Inr t) \<and> turn_after t = Some st4
             \<and> status st4 \<noteq> status st"
  then obtain st1 where c: "check_background_procs (garbage inp)
             (st\<lparr>children := os_progress (exits inp) (children st)\<rparr>) = Some (Inr st1)"
    by (auto simp: main_turn_def split: option.splits sum.splits)
  obtain line st2 where g: "get_command_line inp st1 = (line, st2)"
    by (cases "get_command_line inp st1") auto
  have s2: "status st2 = status st"
    using check_background_procs_frame [OF c] get_command_line_frame [OF g] by simp
  from a c g s2 obtain c l where t: "t = Dispatched c l"
    and h: "handle_command_line env (sched inp) (spawn_pid inp) c st2 = Inr l"
    by (auto simp: main_turn_def dest: kill_children_frame split: if_splits sum.splits)
  have "shell_after l = Some st4" using a t by simp
  from handle_command_line_status [OF h this] a s2 t
  show "\<exists>c. t = Dispatched c (Back st4) \<and> command c \<noteq> ''cd'' \<and> command c \<noteq> ''status''
               \<and> \<not> (run_in_background c \<and> \<not> foreground_only st4)"
    by simp
qed


lemma check_background_procs_idle:
  "bg_proc_count st = 0 \<Longrightarrow> children st = [] \<Longrightarrow>
   check_background_procs cs0 (st\<lparr>children := os_progress ex (children st)\<rparr>) = Some (Inr st)"
  by (cases st) (simp add: check_background_procs_def os_progress_def reap_loop.simps)

lemma kill_children_idle: "bg_proc_count st = 0 \<Longrightarrow> kill_children cs0 dead st = Inr st"
  by (cases st) (simp add: kill_children_def)

lemma main_turn_demo:
  "main_turn env (demo_turn line) (init_state dir) =
     (if skip_line line then Some (Inr (Skip (printf '': '' (init_state dir))))
      else if line = ''exit\<newline>'' then Some (Inr (Exiting (printf '': '' (init_state dir))))
      else
        (case variable_expansion (getpid env) line of
           Inl f \<Rightarrow> Some (Inl f)
         | Inr e \<Rightarrow>
             (case parse_command_line e of
                Inl f \<Rightarrow> Some (Inl f)
              | Inr c \<Rightarrow>
                  (case handle_command_line env quiet 77 c (printf '': '' (init_state dir)) of
                     Inl f \<Rightarrow> Some (Inl f)
                   | Inr l \<Rightarrow> Some (Inr (Dispatched c l))))))"
proof -
  have i: "bg_proc_count (init_state dir) = 0 \<and> children (init_state dir) = []"
    by (simp add: init_state_def)
  have k: "kill_children cs0 dead (printf '': '' (init_state dir)) = Inr (printf '': '' (init_state dir))"
    for cs0 dead
    by (rule kill_children_idle) (simp add: printf_def init_state_def)
  have c: "check_background_procs cs0
             ((init_state dir)\<lparr>children := os_progress ex (children (init_state dir))\<rparr>)
           = Some (Inr (init_state dir))" for cs0 ex
    using i by (intro check_background_procs_idle) simp_all
  have g: "get_command_line (demo_turn line) (init_state dir) = (line, printf '': '' (init_state dir))"
    by (simp add: get_command_line_def demo_turn_def deliver_def)
  have d1: "garbage (demo_turn line) = Exited 0" by (simp add: demo_turn_def)
  have d2: "sched (demo_turn line) = quiet" by (simp add: demo_turn_def)
  have d3: "spawn_pid (demo_turn line) = 77" by (simp add: demo_turn_def)
  show ?thesis
    unfolding main_turn_def c option.case sum.case g prod.case d1 d2 d3 k by simp
qed

lemma expansion_prog: "variable_expansion 4242 ''prog\<newline>'' = Inr ''prog''"
  by (simp add: variable_expansion_def expansion_loop_other expansion_loop_last)

lemma parse_prog:
  "parse_command_line ''prog''
   = Inr \<lparr>command = ''prog'', args = [Some ''prog''], args_count = 1, input_file = None,
          output_file = None, run_in_background = False\<rparr>"
  by (simp add: strtok_r_all_def parse_command_line_def initialize_struct_def)

lemma getpid_demo: "getpid (demo_os fate) = 4242"
  by (simp add: demo_os_def)

lemma handle_prog:
  "handle_command_line (demo_os (Terminates (Exited 3))) quiet 77
     \<lparr>command = ''prog'', args = [Some ''prog''], args_count = 1, input_file = None,
      output_file = None, run_in_background = False\<rparr> (printf '': '' (init_state ''/''))
   = Inr (Back ((init_state ''/'')\<lparr>status := 3, terminal := '': ''\<rparr>))"
proof -
  have "handle_command_line (demo_os (Terminates (Exited 3))) quiet 77
     \<lparr>command = ''prog'', args = [Some ''prog''], args_count = 1, input_file = None,
      output_file = None, run_in_background = False\<rparr> (printf '': '' (init_state ''/''))
     = fork_child (demo_os (Terminates (Exited 3))) quiet 77 (demo_cmd None False)
         (printf '': '' (init_state ''/''))"
    by (simp add: handle_command_line_def demo_cmd_def numeral_2_eq_2)
  also have "\<dots> = Inr (Back ((init_state ''/'')\<lparr>status := 3, terminal := '': ''\<rparr>))"
    by (simp add: fork_child_parent_foreground demo_cmd_foreground demo_fate deliver_quiet Let_def)
       (simp add: init_state_def printf_def)
  finally show ?thesis .
qed

lemma main_turn_prog:
  "main_turn (demo_os (Terminates (Exited 3))) (demo_turn ''prog\<newline>'') (init_state ''/'')
   = Some (Inr (Dispatched
        \<lparr>command = ''prog'', args = [Some ''prog''], args_count = 1, input_file = None,
         output_file = None, run_in_background = False\<rparr>
        (Back ((init_state ''/'')\<lparr>status := 3, terminal := '': ''\<rparr>))))"
  unfolding main_turn_demo getpid_demo expansion_prog parse_prog handle_prog sum.case
  by (simp add: skip_line_def isspace_def)

theorem status_only_set_by_foreground_witness:
  "(\<exists>st1. check_background_procs (Exited 0) (init_state ''/'') = Some (Inr st1)
          \<and> status st1 = status (init_state ''/''))
   \<and> (\<exists>st2. handle_command_line (demo_os RunsForever) quiet 77
                \<lparr>command = ''status'', args = [Some ''status''], args_count = 1,
                 input_file = None, output_file = None, run_in_background = False\<rparr>
                (init_state ''/'') = Inr (Back st2)
          \<and> status st2 = status (init_state ''/''))
   \<and> (\<exists>st3. main_turn (demo_os RunsForever) (demo_turn ''exit\<newline>'') (init_state ''/'')
              = Some (Inr (Exiting st3))
          \<and> status st3 = status (init_state ''/''))
   \<and> (\<exists>c st4. main_turn (demo_os (Terminates (Exited 3))) (demo_turn ''prog\<newline>'')
                  (init_state ''/'') = Some (Inr (Dispatched c (Back st4)))
          \<and> status st4 \<noteq> status (init_state ''/'')
          \<and> command c \<noteq> ''cd'' \<and> command c \<noteq> ''status''
          \<and> \<not> (run_in_background c \<and> \<not> foreground_only st4))"
proof -
  let ?st = "init_state ''/''"
  let ?status = "\<lparr>command = ''status'', args = [Some ''status''], args_count = 1,
                  input_file = None, output_file = None, run_in_background = False\<rparr>"
  let ?prog = "\<lparr>command = ''prog'', args = [Some ''prog''], args_count = 1,
                input_file = None, output_file = None, run_in_background = False\<rparr>"
  let ?st4 = "?st\<lparr>status := 3, terminal := '': ''\<rparr>"
  have 1: "check_background_procs (Exited 0) ?st = Some (Inr ?st)"
    using check_background_procs_idle [of ?st "Exited 0" "[]"]
    by (simp add: init_state_def os_progress_def)
  have 3: "main_turn (demo_os RunsForever) (demo_turn ''exit\<newline>'') ?st
           = Some (Inr (Exiting (printf '': '' ?st)))"
    by (simp add: main_turn_demo skip_line_def isspace_def)
  have 4: "status ?st4 \<noteq> status ?st" by (simp add: init_state_def)
  have e: "buffer (demo_turn ''exit\<newline>'') = ''exit\<newline>''" by (simp add: demo_turn_def)
  have a: "status ?st = status ?st"
    by (rule status_only_set_by_foreground
          [where st = ?st and ?cs0.0 = "Exited 0", THEN conjunct1, THEN mp]) (rule 1)
  have b: "\<exists>st2. handle_command_line (demo_os RunsForever) quiet 77 ?status ?st = Inr (Back st2)
                \<and> status st2 = status ?st"
    by (rule status_only_set_by_foreground [THEN conjunct2, THEN conjunct1, THEN mp]) simp
  have c: "\<exists>st3. Exiting (printf '': '' ?st) = Exiting st3 \<and> status st3 = status ?st"
    by (rule status_only_set_by_foreground
          [where inp = "demo_turn ''exit\<newline>''" and env = "demo_os RunsForever",
           THEN conjunct2, THEN conjunct2, THEN conjunct1, THEN mp])
       (simp only: e 3 simp_thms)
  have d: "\<exists>c. Dispatched ?prog (Back ?st4) = Dispatched c (Back ?st4) \<and> command c \<noteq> ''cd''
               \<and> command c \<noteq> ''status'' \<and> \<not> (run_in_background c \<and> \<not> foreground_only ?st4)"
    by (rule status_only_set_by_foreground
          [where inp = "demo_turn ''prog\<newline>''" and env = "demo_os (Terminates (Exited 3))"
             and st = ?st,
           THEN conjunct2, THEN conjunct2, THEN conjunct2, THEN mp])
       (simp only: main_turn_prog turn_after.simps shell_after.simps 4 simp_thms not_False_eq_True)
  have a': "\<exists>st1. check_background_procs (Exited 0) ?st = Some (Inr st1) \<and> status st1 = status ?st"
    using 1 a by blast
  have c': "\<exists>st3. main_turn (demo_os RunsForever) (demo_turn ''exit\<newline>'') ?st
              = Some (Inr (Exiting st3)) \<and> status st3 = status ?st"
    using 3 c by simp
  have d': "\<exists>c st4. main_turn (demo_os (Terminates (Exited 3))) (demo_turn ''prog\<newline>'') ?st
                = Some (Inr (Dispatched c (Back st4)))
          \<and> status st4 \<noteq> status ?st
          \<and> command c \<noteq> ''cd'' \<and> command c \<noteq> ''status''
          \<and> \<not> (run_in_background c \<and> \<not> foreground_only st4)"
  proof -
    from d have "command ?prog \<noteq> ''cd'' \<and> command ?prog \<noteq> ''status''
               \<and> \<not> (run_in_background ?prog \<and> \<not> foreground_only ?st4)"
      by simp
    with main_turn_prog 4 show ?thesis by blast
  qed
  show ?thesis
    using a' b c' d' by blast
qed

section \<open>Blank lines and comments\<close>

text \<open>
  C4 at an input where the code departs from it: the line \<open> ls\<close>, a command after one
  blank, is neither a line of white space only nor a comment, and the loop skips it; no
  command is dispatched.
\<close>

theorem main_turn_skips_leading_space:
  "\<not> blank '' ls\<newline>'' \<and> first_nonspace '' ls\<newline>'' = Some CHR ''l''
   \<and> main_turn (demo_os RunsForever) (demo_turn '' ls\<newline>'') (init_state ''/'')
       = Some (Inr (Skip (printf '': '' (init_state ''/''))))"
  by (simp add: main_turn_demo skip_line_def isspace_def blank_def first_nonspace_def)

section \<open>The status built-in\<close>

lemma sprintf_d_2: "sprintf_d 2 = ''2''"
  by code_simp

text \<open>
  C1 at the input where the code departs from it: after a foreground command that exits
  with code 2, \<open>status\<close> holds 2 and the built-in prints that the command was terminated
  by signal 2.
\<close>

theorem status_after_exit_code_2:
  "fork_child (demo_os (Terminates (Exited 2))) quiet 77 (demo_cmd None False) (init_state ''/'')
     = Inr (Back ((init_state ''/'')\<lparr>status := 2\<rparr>))
   \<and> terminal (display_status ((init_state ''/'')\<lparr>status := 2\<rparr>))
     = ''terminated by signal 2\<newline>''"
proof -
  have "fork_child (demo_os (Terminates (Exited 2))) quiet 77 (demo_cmd None False)
          (init_state ''/'') = Inr (Back ((init_state ''/'')\<lparr>status := 2\<rparr>))"
    by (simp add: fork_child_parent_foreground demo_cmd_foreground demo_fate deliver_quiet Let_def)
       (simp add: init_state_def)
  moreover have "terminal (display_status ((init_state ''/'')\<lparr>status := 2\<rparr>))
                 = ''terminated by signal 2\<newline>''"
    by (simp add: display_status_def printf_def init_state_def sprintf_d_2)
  ultimately show ?thesis by simp
qed

section \<open>The capacity of the registry\<close>

text \<open>
  C5 at the inputs where the code departs from it: when the registry fills the allocated
  block, the launch of a background-eligible command stores the child's identifier
  behind the block; no check precedes the store.
\<close>

theorem fork_child_registry_full:
  assumes "pid \<noteq> 0"
    and "eligible_at_register sch cl st"
    and "bg_proc_count st = int (length (background_procs st))"
  shows "fork_child env sch pid cl st = Inl BufferOverflow"
proof -
  let ?st1 = "deliver (before_register sch) st"
  have e: "(before_register sch \<and> pid \<noteq> 0) = before_register sch"
    using assms(1) by simp
  have r: "(run_in_background cl \<and> \<not> foreground_only ?st1) = True"
    using assms(2) by (simp add: eligible_at_register_def)
  have b: "(0 \<le> bg_proc_count ?st1
            \<and> bg_proc_count ?st1 < int (length (background_procs ?st1))) = False"
    using assms(3) by (simp add: deliver_frame)
  show ?thesis
    unfolding fork_child_def Let_def e r b by simp
qed

theorem fork_child_registry_full_witness:
  "length (registry full_registry) = 100
   \<and> fork_child (demo_os RunsForever) quiet 500 (demo_cmd None True) full_registry
       = Inl BufferOverflow"
proof -
  have e: "eligible_at_register quiet (demo_cmd None True) full_registry"
    by (simp add: eligible_at_register_def demo_cmd_def quiet_def deliver_def full_registry_def
        init_state_def)
  have c: "bg_proc_count full_registry = int (length (background_procs full_registry))"
    by (simp add: full_registry_def)
  have "length (registry full_registry) = 100"
    by (simp add: registry_def full_registry_def)
  then show ?thesis
    using fork_child_registry_full [OF _ e c, of 500] by simp
qed

section \<open>The decisions about one launch\<close>

lemma take_1_update_0: "take (Suc 0) (xs[0 := a]) = (if xs = [] then [] else [a])"
  by (cases xs) auto

text \<open>
  C6 at inputs where the code departs from it. The child of a background-eligible
  command gets \<open>/dev/null\<close> as its input, as a background child, and the default
  disposition of SIGINT, as a foreground child; in foreground-only mode the child of a
  command marked \<open>&\<close> runs in the foreground and still ignores SIGINT. And when a
  SIGTSTP arrives between the two tests of \<open>foreground_only\<close> in \<open>fork_child\<close>, the child
  is registered as a background job and waited for as a foreground job.
\<close>

theorem fork_child_decisions_differ:
  "(\<exists>ch. fork_child (demo_os RunsForever) quiet 0 (demo_cmd None True) (init_state ''/'')
           = Inr (InChild (ImageReplaced [Some ''prog'', None] ch))
         \<and> c_stdin ch = Some ''/dev/null'' \<and> c_sigint ch = SIG_DFL)
   \<and> (\<exists>ch. fork_child (demo_os RunsForever) quiet 0 (demo_cmd None True)
              ((init_state ''/'')\<lparr>foreground_only := True\<rparr>)
           = Inr (InChild (ImageReplaced [Some ''prog'', None] ch))
         \<and> c_stdin ch = None \<and> c_sigint ch = SIG_IGN)
   \<and> (\<exists>st'. fork_child (demo_os (Terminates (Exited 0))) (quiet\<lparr>before_wait := True\<rparr>) 77
               (demo_cmd None True) (init_state ''/'') = Inr (Back st')
         \<and> registry st' = [77] \<and> children st' = [] \<and> foreground_only st')"
proof (intro conjI)
  show "\<exists>ch. fork_child (demo_os RunsForever) quiet 0 (demo_cmd None True) (init_state ''/'')
           = Inr (InChild (ImageReplaced [Some ''prog'', None] ch))
         \<and> c_stdin ch = Some ''/dev/null'' \<and> c_sigint ch = SIG_DFL"
    by (simp add: fork_child_def Let_def demo_os_def quiet_def demo_cmd_def init_state_def
        deliver_def child_process_def child_of_def c_deliver_def restore_SIGINT_def
        ignore_SIGTSTP_def input_redirect_def output_redirect_def)
  show "\<exists>ch. fork_child (demo_os RunsForever) quiet 0 (demo_cmd None True)
              ((init_state ''/'')\<lparr>foreground_only := True\<rparr>)
           = Inr (InChild (ImageReplaced [Some ''prog'', None] ch))
         \<and> c_stdin ch = None \<and> c_sigint ch = SIG_IGN"
    by (simp add: fork_child_def Let_def demo_os_def quiet_def demo_cmd_def init_state_def
        deliver_def child_process_def child_of_def c_deliver_def restore_SIGINT_def
        ignore_SIGTSTP_def input_redirect_def output_redirect_def)
  show "\<exists>st'. fork_child (demo_os (Terminates (Exited 0))) (quiet\<lparr>before_wait := True\<rparr>) 77
               (demo_cmd None True) (init_state ''/'') = Inr (Back st')
         \<and> registry st' = [77] \<and> children st' = [] \<and> foreground_only st'"
    by (simp add: fork_child_def Let_def demo_os_def quiet_def demo_cmd_def init_state_def
        deliver_def handle_SIGTSTP_def printf_def child_process_def child_of_def c_deliver_def
        restore_SIGINT_def ignore_SIGTSTP_def input_redirect_def output_redirect_def
        registry_def take_1_update_0)
qed

end
